theory Spec2Isabelle
  imports Complex_Main "HOL-Library.Log_Nat"
begin

section \<open>The temperature profile form (src/components/temperatureProfileForm.tsx)\<close>

text \<open>
  The component keeps a bed time and a wake-up time as strings, three sleep levels as
  numbers and a timezone. An effect recomputes the sleep duration and the two stage
  transition times whenever one of the two time strings changes; the submit handler
  scales the sleep levels by ten and sends the profile; a successful delete resets
  the form.

  Conventions of the embedding:
  \<^item> a JavaScript number that may be \<open>NaN\<close> is an \<open>int option\<close> (\<open>None\<close> is \<open>NaN\<close>)
    where the code only produces integers; their arithmetic is exact below \<open>2^53\<close>,
    which covers every time value of the two days concerned;
  \<^item> a sleep level is a \<open>rat\<close>, the exact value of a double, and a division or
    multiplication of doubles is the exact operation followed by the rounding \<open>fl64\<close>;
  \<^item> a \<open>Date\<close> is its time value, counted in milliseconds from local midnight at the
    start of 2000-01-01 (\<open>None\<close> is the Invalid Date). The local UTC offset is taken
    to be the same on 2000-01-01 and 2000-01-02, so that a calendar day is
    86400000 ms and differences of \<open>getTime()\<close> are differences of these values;
  \<^item> a string is a \<open>char list\<close>; \<open>null\<close> is \<open>None\<close>.
\<close>

subsection \<open>Time strings and the schema's pattern\<close>

definition is_digit :: "char \<Rightarrow> bool" where
  "is_digit c = (48 \<le> (of_char c :: nat) \<and> (of_char c :: nat) \<le> 57)"

definition digit_val :: "char \<Rightarrow> nat" where
  "digit_val c = of_char c - 48"

definition digit_char :: "nat \<Rightarrow> char" where
  "digit_char n = char_of (48 + n)"

text \<open>The regular expression \<^verbatim>\<open>/^\d{2}:\d{2}$/\<close> (no flags: \<^verbatim>\<open>\d\<close> is an ASCII digit
  and \<^verbatim>\<open>$\<close> is the end of the input).\<close>

fun time_regex :: "string \<Rightarrow> bool" where
  "time_regex [a, b, c, d, e] =
     (is_digit a \<and> is_digit b \<and> c = CHR '':'' \<and> is_digit d \<and> is_digit e)"
| "time_regex _ = False"

text \<open>The \<open>bedTime\<close> and \<open>wakeupTime\<close> fields of \<open>temperatureProfileSchema\<close>:
  \<open>Inr\<close> the accepted string, \<open>Inl\<close> the message of the issue.\<close>

definition schema_time :: "string \<Rightarrow> string + string" where
  "schema_time s = (if time_regex s then Inr s else Inl ''Must be in HH:MM format'')"

text \<open>The two numbers written in a string that matches the pattern.\<close>

fun hour_of :: "string \<Rightarrow> nat" where
  "hour_of (a # b # _) = 10 * digit_val a + digit_val b"
| "hour_of _ = 0"

fun minute_of :: "string \<Rightarrow> nat" where
  "minute_of (_ # _ # _ # d # e # _) = 10 * digit_val d + digit_val e"
| "minute_of _ = 0"

subsection \<open>Dates\<close>

type_synonym number = "int option"
type_synonym date = "int option"

text \<open>
  \<^verbatim>\<open>new Date(`2000-01-01T${t}:00`)\<close>. For \<open>t\<close> of the shape \<open>dd:dd\<close> the text is in
  ECMAScript's date-time format \<open>YYYY-MM-DDTHH:mm:ss\<close>, read as local time: hours
  00 to 23 and minutes 00 to 59 give that instant, \<open>24:00:00\<close> is the end of the day,
  and any other value of a field gives the Invalid Date. For every other \<open>t\<close> the
  result depends on the engine's own fallback parser, which is the parameter \<open>other\<close>.
\<close>

definition new_Date :: "(string \<Rightarrow> date) \<Rightarrow> string \<Rightarrow> date" where
  "new_Date other t =
     (if time_regex t then
        (if hour_of t \<le> 23 \<and> minute_of t \<le> 59
           then Some ((int (hour_of t) * 60 + int (minute_of t)) * 60000)
         else if hour_of t = 24 \<and> minute_of t = 0 then Some 86400000
         else None)
      else other t)"

text \<open>\<^verbatim>\<open>a <= b\<close> and \<^verbatim>\<open>a < b\<close> on numbers: false when either side is \<open>NaN\<close>.\<close>

fun num_le :: "number \<Rightarrow> number \<Rightarrow> bool" where
  "num_le (Some x) (Some y) = (x \<le> y)"
| "num_le _ _ = False"

fun num_lt :: "number \<Rightarrow> number \<Rightarrow> bool" where
  "num_lt (Some x) (Some y) = (x < y)"
| "num_lt _ _ = False"

fun num_add :: "number \<Rightarrow> number \<Rightarrow> number" where
  "num_add (Some x) (Some y) = Some (x + y)"
| "num_add _ _ = None"

fun num_sub :: "number \<Rightarrow> number \<Rightarrow> number" where
  "num_sub (Some x) (Some y) = Some (x - y)"
| "num_sub _ _ = None"

text \<open>\<^verbatim>\<open>a % b\<close> for a positive constant \<open>b\<close>: the remainder has the sign of \<open>a\<close>.\<close>

definition js_rem :: "int \<Rightarrow> int \<Rightarrow> int" where
  "js_rem a b = sgn a * (\<bar>a\<bar> mod \<bar>b\<bar>)"

text \<open>\<^verbatim>\<open>Math.floor(a / b)\<close> and \<^verbatim>\<open>Math.round(a / b)\<close> for integers \<open>a\<close> and a positive
  constant \<open>b\<close>; \<open>Math.round\<close> takes a half towards \<open>+\<infinity>\<close>.\<close>

definition floor_div :: "number \<Rightarrow> int \<Rightarrow> number" where
  "floor_div a b = map_option (\<lambda>x. x div b) a"

definition round_div :: "number \<Rightarrow> int \<Rightarrow> number" where
  "round_div a b = map_option (\<lambda>x. (2 * x + b) div (2 * b)) a"

definition num_rem :: "number \<Rightarrow> int \<Rightarrow> number" where
  "num_rem a b = map_option (\<lambda>x. js_rem x b) a"

text \<open>\<^verbatim>\<open>d.setDate(d.getDate() + 1)\<close>: the same local time on the next calendar day.\<close>

definition setDate_next :: "date \<Rightarrow> date" where
  "setDate_next d = map_option (\<lambda>x. x + 86400000) d"

text \<open>\<^verbatim>\<open>String(n)\<close> for an integer \<open>n\<close> or \<open>NaN\<close>, as a template literal prints it.\<close>

fun digits10 :: "nat \<Rightarrow> string" where
  "digits10 n =
     (if n < 10 then [digit_char n] else digits10 (n div 10) @ [digit_char (n mod 10)])"

declare digits10.simps [simp del]

definition number_toString :: "number \<Rightarrow> string" where
  "number_toString x =
     (case x of None \<Rightarrow> ''NaN''
      | Some i \<Rightarrow> if i < 0 then CHR ''-'' # digits10 (nat (- i)) else digits10 (nat i))"

text \<open>\<^verbatim>\<open>d.toTimeString().slice(0, 5)\<close>: the local time of day as \<open>HH:MM\<close>; the Invalid
  Date prints as \<^verbatim>\<open>Invalid Date\<close>, of which the first five characters remain.\<close>

definition two_digits :: "nat \<Rightarrow> string" where
  "two_digits n = [digit_char (n div 10), digit_char (n mod 10)]"

definition hhmm :: "nat \<Rightarrow> string" where
  "hhmm mins = two_digits (mins div 60) @ '':'' @ two_digits (mins mod 60)"

definition toTimeString5 :: "date \<Rightarrow> string" where
  "toTimeString5 d =
     (case d of None \<Rightarrow> ''Inval''
      | Some ms \<Rightarrow> hhmm (nat ((ms mod 86400000) div 60000)))"

subsection \<open>Component state\<close>

record sleep_info =
  duration :: string
  midStageTime :: string
  finalStageTime :: string

record timezone_option =
  tz_value :: string
  altName :: "string option"
  abbrev :: "string option"

record form_values =
  bedTime :: string
  wakeupTime :: string
  initialSleepLevel :: rat
  midStageSleepLevel :: rat
  finalSleepLevel :: rat
  timezone :: timezone_option

record component =
  isLoading :: bool
  isExistingProfile :: bool
  sleepDurationError :: "string option"
  sleepInfo :: sleep_info
  form :: form_values
  isDirty :: bool

definition defaultValues :: form_values where
  "defaultValues =
     \<lparr> bedTime = ''22:00'', wakeupTime = ''06:00'',
       initialSleepLevel = 0, midStageSleepLevel = 0, finalSleepLevel = 0,
       timezone = \<lparr> tz_value = ''America/New_York'', altName = None, abbrev = None \<rparr> \<rparr>"

text \<open>The state of the first render: the initial values of the \<open>useState\<close> hooks and
  the form's default values.\<close>

definition initial_component :: component where
  "initial_component =
     \<lparr> isLoading = True, isExistingProfile = False, sleepDurationError = None,
       sleepInfo = \<lparr> duration = [], midStageTime = [], finalStageTime = [] \<rparr>,
       form = defaultValues, isDirty = False \<rparr>"

subsection \<open>The duration effect\<close>

text \<open>The locals of the effect on \<open>bedTime\<close> and \<open>wakeupTime\<close>, in the order of the
  source. \<open>wakeDate\<close> is the date after the roll-over to the next day.\<close>

definition bedDate :: "(string \<Rightarrow> date) \<Rightarrow> string \<Rightarrow> date" where
  "bedDate other bed = new_Date other bed"

definition wakeIsNextDay :: "(string \<Rightarrow> date) \<Rightarrow> string \<Rightarrow> string \<Rightarrow> bool" where
  "wakeIsNextDay other bed wake = num_le (new_Date other wake) (bedDate other bed)"

definition wakeDate :: "(string \<Rightarrow> date) \<Rightarrow> string \<Rightarrow> string \<Rightarrow> date" where
  "wakeDate other bed wake =
     (if wakeIsNextDay other bed wake then setDate_next (new_Date other wake)
      else new_Date other wake)"

definition durationMs :: "(string \<Rightarrow> date) \<Rightarrow> string \<Rightarrow> string \<Rightarrow> number" where
  "durationMs other bed wake = num_sub (wakeDate other bed wake) (bedDate other bed)"

definition hours :: "(string \<Rightarrow> date) \<Rightarrow> string \<Rightarrow> string \<Rightarrow> number" where
  "hours other bed wake = floor_div (durationMs other bed wake) (1000 * 60 * 60)"

definition minutes :: "(string \<Rightarrow> date) \<Rightarrow> string \<Rightarrow> string \<Rightarrow> number" where
  "minutes other bed wake =
     round_div (num_rem (durationMs other bed wake) (1000 * 60 * 60)) (1000 * 60)"

definition midStageDate :: "(string \<Rightarrow> date) \<Rightarrow> string \<Rightarrow> date" where
  "midStageDate other bed = num_add (bedDate other bed) (Some (60 * 60 * 1000))"

definition finalStageDate :: "(string \<Rightarrow> date) \<Rightarrow> string \<Rightarrow> string \<Rightarrow> date" where
  "finalStageDate other bed wake =
     num_sub (wakeDate other bed wake) (Some (2 * 60 * 60 * 1000))"

definition sleep_effect ::
  "(string \<Rightarrow> date) \<Rightarrow> string \<Rightarrow> string \<Rightarrow> component \<Rightarrow> component" where
  "sleep_effect other bed wake st =
     (if bed \<noteq> [] \<and> wake \<noteq> [] then
        (if num_lt (hours other bed wake) (Some 4) then
           st\<lparr> sleepDurationError := Some ''Sleep duration must be at least 4 hours.'',
               sleepInfo := \<lparr> duration = [], midStageTime = [], finalStageTime = [] \<rparr> \<rparr>
         else
           st\<lparr> sleepDurationError := None,
               sleepInfo :=
                 \<lparr> duration = number_toString (hours other bed wake) @ '' hours ''
                       @ number_toString (minutes other bed wake) @ '' minutes'',
                   midStageTime = toTimeString5 (midStageDate other bed),
                   finalStageTime = toTimeString5 (finalStageDate other bed wake) \<rparr> \<rparr>)
      else st)"

subsection \<open>Double-precision rounding and the sleep-level codec\<close>

text \<open>Rounding to the nearest integer, a tie going to the even neighbour.\<close>

definition round_half_even :: "rat \<Rightarrow> int" where
  "round_half_even x =
     (let f = \<lfloor>x\<rfloor>; r = x - of_int f
      in if r < 1 / 2 then f else if 1 / 2 < r then f + 1 else if even f then f else f + 1)"

text \<open>The binary exponent of a positive rational: the \<open>e\<close> with \<open>2^e \<le> x < 2^(e+1)\<close>.\<close>

definition ilog2 :: "rat \<Rightarrow> int" where
  "ilog2 x =
     (if 1 \<le> x then int (floorlog 2 (nat \<lfloor>x\<rfloor>)) - 1
      else - int (floorlog 2 (nat (\<lceil>1 / x\<rceil> - 1))))"

text \<open>
  The result of an arithmetic operation on doubles: the exact value rounded to a
  significand of 53 bits, ties to even. The exponent is not bounded here; the values
  that occur below are zero or lie between \<open>2^-4\<close> and \<open>2^10\<close> in magnitude, far from
  overflow and from the subnormal range.
\<close>

definition fl64 :: "rat \<Rightarrow> rat" where
  "fl64 x =
     (if x = 0 then 0
      else (let u = 2 powi (ilog2 \<bar>x\<bar> - 52) in of_int (round_half_even (x / u)) * u))"

text \<open>\<^verbatim>\<open>Math.round(x)\<close>: the nearest integer, a half going towards \<open>+\<infinity>\<close>.\<close>

definition js_round :: "rat \<Rightarrow> int" where
  "js_round x = \<lfloor>x + 1 / 2\<rfloor>"

text \<open>\<^verbatim>\<open>profile.initialSleepLevel / 10\<close> of the fetch effect and
  \<^verbatim>\<open>Math.round(data.initialSleepLevel * 10)\<close> of the submit handler (the same
  expressions serve the mid-stage and the final level).\<close>

definition decode :: "int \<Rightarrow> rat" where
  "decode stored = fl64 (of_int stored / 10)"

definition encode :: "rat \<Rightarrow> int" where
  "encode level = js_round (fl64 (level * 10))"

subsection \<open>Fetching, submitting and deleting\<close>

text \<open>The profile as the remote store holds it; the write payload has the same fields.\<close>

record profile =
  p_bedTime :: string
  p_wakeupTime :: string
  p_initialSleepLevel :: int
  p_midStageSleepLevel :: int
  p_finalSleepLevel :: int
  timezoneTZ :: string

datatype query = Loading | Success profile | Failed

datatype request = UpdateProfile profile | DeleteProfile

text \<open>The effect on the state of \<open>getUserTemperatureProfileQuery\<close>.\<close>

definition fetch_effect :: "query \<Rightarrow> component \<Rightarrow> component" where
  "fetch_effect q st =
     (case q of
        Success p \<Rightarrow>
          st\<lparr> form :=
                \<lparr> bedTime = take 5 (p_bedTime p),
                  wakeupTime = take 5 (p_wakeupTime p),
                  initialSleepLevel = decode (p_initialSleepLevel p),
                  midStageSleepLevel = decode (p_midStageSleepLevel p),
                  finalSleepLevel = decode (p_finalSleepLevel p),
                  timezone = \<lparr> tz_value = timezoneTZ p, altName = None, abbrev = None \<rparr> \<rparr>,
              isExistingProfile := True, isLoading := False \<rparr>
      | Failed \<Rightarrow> st\<lparr> isExistingProfile := False, isLoading := False \<rparr>
      | Loading \<Rightarrow> st)"

text \<open>A string or \<open>null\<close> used as a condition: \<open>null\<close> and the empty string are false.\<close>

definition truthy :: "string option \<Rightarrow> bool" where
  "truthy e = (case e of None \<Rightarrow> False | Some s \<Rightarrow> s \<noteq> [])"

definition formatTimeForAPI :: "string \<Rightarrow> string" where
  "formatTimeForAPI time = time @ '':00.000000''"

text \<open>The submit handler; the result lists the calls made to the remote store.\<close>

definition onSubmit :: "component \<Rightarrow> form_values \<Rightarrow> request list" where
  "onSubmit st data =
     (if truthy (sleepDurationError st) then []
      else [UpdateProfile
              \<lparr> p_bedTime = formatTimeForAPI (bedTime data),
                p_wakeupTime = formatTimeForAPI (wakeupTime data),
                p_initialSleepLevel = encode (initialSleepLevel data),
                p_midStageSleepLevel = encode (midStageSleepLevel data),
                p_finalSleepLevel = encode (finalSleepLevel data),
                timezoneTZ = tz_value (timezone data) \<rparr>])"

text \<open>\<open>temperatureProfileSchema\<close> as the form's resolver applies it, and
  \<open>handleSubmit(onSubmit)\<close>, which calls the handler on values that pass.\<close>

definition temperatureProfileSchema :: "form_values \<Rightarrow> bool" where
  "temperatureProfileSchema v =
     (time_regex (bedTime v) \<and> time_regex (wakeupTime v) \<and>
      - 10 \<le> initialSleepLevel v \<and> initialSleepLevel v \<le> 10 \<and>
      - 10 \<le> midStageSleepLevel v \<and> midStageSleepLevel v \<le> 10 \<and>
      - 10 \<le> finalSleepLevel v \<and> finalSleepLevel v \<le> 10)"

definition handleSubmit :: "component \<Rightarrow> request list" where
  "handleSubmit st = (if temperatureProfileSchema (form st) then onSubmit st (form st) else [])"

text \<open>The \<open>disabled\<close> attribute of the submit button; \<open>isPending\<close> is the state of the
  update mutation.\<close>

definition submit_disabled :: "bool \<Rightarrow> component \<Rightarrow> bool" where
  "submit_disabled isPending st = (isPending \<or> truthy (sleepDurationError st) \<or> \<not> isDirty st)"

text \<open>The delete button after \<open>window.confirm\<close> has answered, and \<open>onSuccess\<close> of the
  update and of the delete mutation. \<open>reset()\<close> puts the form's default values back and
  clears its dirty state.\<close>

definition onDelete :: "bool \<Rightarrow> request list" where
  "onDelete confirmed = (if confirmed then [DeleteProfile] else [])"

definition update_onSuccess :: "component \<Rightarrow> component" where
  "update_onSuccess st = st\<lparr> isExistingProfile := True \<rparr>"

definition delete_onSuccess :: "component \<Rightarrow> component" where
  "delete_onSuccess st = st\<lparr> isExistingProfile := False, form := defaultValues, isDirty := False \<rparr>"

subsection \<open>Notions used in the statements\<close>

text \<open>A parsed time is a string of the pattern whose hour and minute are on the clock;
  \<open>minutes_of_day\<close> is its number of minutes since midnight.\<close>

definition parsed_time :: "string \<Rightarrow> bool" where
  "parsed_time t = (time_regex t \<and> hour_of t \<le> 23 \<and> minute_of t \<le> 59)"

definition minutes_of_day :: "string \<Rightarrow> int" where
  "minutes_of_day t = int (hour_of t) * 60 + int (minute_of t)"

text \<open>The duration the effect displays, in minutes: sixty times \<open>hours\<close> plus \<open>minutes\<close>.\<close>

definition durationMinutes :: "(string \<Rightarrow> date) \<Rightarrow> string \<Rightarrow> string \<Rightarrow> number" where
  "durationMinutes other bed wake =
     num_add (map_option (\<lambda>h. h * 60) (hours other bed wake)) (minutes other bed wake)"

text \<open>An engine whose fallback parser accepts nothing.\<close>

definition reject_other :: "string \<Rightarrow> date" where
  "reject_other t = None"

section \<open>Properties of the duration effect\<close>

subsection \<open>Parsed times and their dates\<close>

lemma new_Date_parsed:
  "parsed_time t \<Longrightarrow> new_Date other t = Some (minutes_of_day t * 60000)"
  by (simp add: parsed_time_def new_Date_def minutes_of_day_def)

lemma minutes_of_day_range:
  "parsed_time t \<Longrightarrow> 0 \<le> minutes_of_day t \<and> minutes_of_day t < 1440"
  by (simp add: parsed_time_def minutes_of_day_def)

lemma parsed_time_nonempty: "parsed_time t \<Longrightarrow> t \<noteq> []"
  by (auto simp: parsed_time_def)

lemma wakeIsNextDay_parsed:
  "parsed_time bed \<Longrightarrow> parsed_time wake \<Longrightarrow>
   wakeIsNextDay other bed wake = (minutes_of_day wake \<le> minutes_of_day bed)"
  by (simp add: wakeIsNextDay_def bedDate_def new_Date_parsed)

lemma wakeDate_parsed:
  "parsed_time bed \<Longrightarrow> parsed_time wake \<Longrightarrow>
   wakeDate other bed wake =
     Some ((if minutes_of_day wake \<le> minutes_of_day bed then minutes_of_day wake + 1440
            else minutes_of_day wake) * 60000)"
  by (simp add: wakeDate_def wakeIsNextDay_parsed new_Date_parsed setDate_next_def)

lemma durationMs_parsed:
  "parsed_time bed \<Longrightarrow> parsed_time wake \<Longrightarrow>
   durationMs other bed wake =
     Some ((if minutes_of_day wake \<le> minutes_of_day bed
            then minutes_of_day wake - minutes_of_day bed + 1440
            else minutes_of_day wake - minutes_of_day bed) * 60000)"
  by (simp add: durationMs_def wakeDate_parsed bedDate_def new_Date_parsed algebra_simps)

lemma hours_of_minutes: "(d * 60000) div 3600000 = d div (60::int)"
proof -
  have "(d * 60000) div (60 * 60000) = d div (60::int)"
    by (rule div_mult_mult2) simp
  then show ?thesis by simp
qed

lemma rem_of_minutes:
  assumes "0 \<le> (d::int)"
  shows "js_rem (d * 60000) 3600000 = (d mod 60) * 60000"
proof -
  have "(d * 60000) mod (60 * 60000) = (d mod 60) * 60000"
    by (rule mult_mod_left [symmetric])
  then show ?thesis
    using assms by (cases "d = 0") (simp_all add: js_rem_def)
qed

lemma round_of_minutes: "(2 * (r * 60000) + 60000) div 120000 = (r::int)"
proof -
  have "(60000 + r * 120000) div 120000 = r + 60000 div 120000"
    by (rule div_mult_self1) simp
  then show ?thesis by (simp add: algebra_simps)
qed

lemma hours_parsed:
  assumes "durationMs other bed wake = Some (d * 60000)"
  shows "hours other bed wake = Some (d div 60)"
  using assms hours_of_minutes [of d] by (simp add: hours_def floor_div_def)

lemma minutes_parsed:
  assumes "durationMs other bed wake = Some (d * 60000)" "0 \<le> d"
  shows "minutes other bed wake = Some (d mod 60)"
  using assms rem_of_minutes [of d] round_of_minutes [of "d mod 60"]
  by (simp add: minutes_def round_div_def num_rem_def)

lemma durationMinutes_of_ms:
  assumes "durationMs other bed wake = Some (d * 60000)" "0 \<le> d"
  shows "durationMinutes other bed wake = Some d"
  using hours_parsed [OF assms(1)] minutes_parsed [OF assms]
  by (simp add: durationMinutes_def)

lemma durationMinutes_parsed:
  assumes "parsed_time bed" "parsed_time wake"
  shows "durationMinutes other bed wake =
     Some (if minutes_of_day wake \<le> minutes_of_day bed
           then minutes_of_day wake - minutes_of_day bed + 1440
           else minutes_of_day wake - minutes_of_day bed)"
proof -
  let ?d = "if minutes_of_day wake \<le> minutes_of_day bed
           then minutes_of_day wake - minutes_of_day bed + 1440
           else minutes_of_day wake - minutes_of_day bed"
  have "0 \<le> ?d"
    using minutes_of_day_range [OF assms(1)] minutes_of_day_range [OF assms(2)] by simp
  then show ?thesis
    using durationMinutes_of_ms [of other bed wake ?d] durationMs_parsed [OF assms, of other]
    by simp
qed

lemma digit_char_roundtrip:
  "k < 10 \<Longrightarrow> is_digit (digit_char k) \<and> digit_val (digit_char k) = k"
  by (simp add: is_digit_def digit_val_def digit_char_def)

lemma hhmm_parsed:
  assumes "n < 1440"
  shows "parsed_time (hhmm n) \<and> minutes_of_day (hhmm n) = int n"
proof -
  have h: "n div 60 < 24" using assms by simp
  have d: "n div 60 div 10 < 10" "n div 60 mod 10 < 10" "n mod 60 div 10 < 10" "n mod 60 mod 10 < 10"
    using h by simp_all
  have hr: "10 * (n div 60 div 10) + n div 60 mod 10 = n div 60"
    by simp
  have mn: "10 * (n mod 60 div 10) + n mod 60 mod 10 = n mod 60"
    by simp
  have m59: "n mod 60 \<le> 59"
    by simp
  have "n div 60 * 60 + n mod 60 = n"
    by simp
  then have "int (n div 60 * 60 + n mod 60) = int n"
    by (rule arg_cong)
  then have tot: "int (n div 60) * 60 + int (n mod 60) = int n"
    by (simp only: of_nat_add of_nat_mult of_nat_numeral)
  show ?thesis
    using digit_char_roundtrip [OF d(1)] digit_char_roundtrip [OF d(2)]
      digit_char_roundtrip [OF d(3)] digit_char_roundtrip [OF d(4)] h hr mn m59 tot
    by (simp add: parsed_time_def minutes_of_day_def hhmm_def two_digits_def)
qed

lemma toTimeString5_minutes:
  "toTimeString5 (Some (x * 60000)) = hhmm (nat (x mod 1440))"
proof -
  have "(x * 60000) mod (1440 * 60000) = (x mod 1440) * 60000"
    by (rule mult_mod_left [symmetric])
  then have "(x * 60000) mod 86400000 div 60000 = x mod 1440"
    by simp
  then show ?thesis by (simp add: toTimeString5_def)
qed

lemma midStageDate_parsed:
  "parsed_time bed \<Longrightarrow> midStageDate other bed = Some ((minutes_of_day bed + 60) * 60000)"
  by (simp add: midStageDate_def bedDate_def new_Date_parsed algebra_simps)

lemma finalStageDate_parsed:
  "parsed_time bed \<Longrightarrow> parsed_time wake \<Longrightarrow>
   finalStageDate other bed wake =
     Some (((if minutes_of_day wake \<le> minutes_of_day bed then minutes_of_day wake + 1440
             else minutes_of_day wake) - 120) * 60000)"
  by (simp add: finalStageDate_def wakeDate_parsed algebra_simps)

lemma midStageTime_parsed:
  assumes "parsed_time bed"
  shows "toTimeString5 (midStageDate other bed) = hhmm (nat ((minutes_of_day bed + 60) mod 1440))"
  unfolding midStageDate_parsed [OF assms] by (rule toTimeString5_minutes)

lemma finalStageTime_parsed:
  assumes "parsed_time bed" "parsed_time wake"
  shows "toTimeString5 (finalStageDate other bed wake) =
     hhmm (nat (((if minutes_of_day wake \<le> minutes_of_day bed then minutes_of_day wake + 1440
                  else minutes_of_day wake) - 120) mod 1440))"
  unfolding finalStageDate_parsed [OF assms] by (rule toTimeString5_minutes)

lemma sleep_effect_parsed:
  assumes "parsed_time bed" "parsed_time wake" "durationMinutes other bed wake = Some D"
  shows "sleep_effect other bed wake st =
     (if D < 240 then
        st\<lparr> sleepDurationError := Some ''Sleep duration must be at least 4 hours.'',
            sleepInfo := \<lparr> duration = [], midStageTime = [], finalStageTime = [] \<rparr> \<rparr>
      else
        st\<lparr> sleepDurationError := None,
            sleepInfo :=
              \<lparr> duration = number_toString (Some (D div 60)) @ '' hours ''
                    @ number_toString (Some (D mod 60)) @ '' minutes'',
                midStageTime = hhmm (nat ((minutes_of_day bed + 60) mod 1440)),
                finalStageTime =
                  hhmm (nat (((if minutes_of_day wake \<le> minutes_of_day bed
                               then minutes_of_day wake + 1440
                               else minutes_of_day wake) - 120) mod 1440)) \<rparr> \<rparr>)"
proof -
  let ?d = "if minutes_of_day wake \<le> minutes_of_day bed
           then minutes_of_day wake - minutes_of_day bed + 1440
           else minutes_of_day wake - minutes_of_day bed"
  have D: "D = ?d"
    using durationMinutes_parsed [OF assms(1,2), of other] assms(3) by simp
  have nonneg: "0 \<le> D"
    unfolding D using minutes_of_day_range [OF assms(1)] minutes_of_day_range [OF assms(2)]
    by simp
  have ms: "durationMs other bed wake = Some (D * 60000)"
    unfolding D by (rule durationMs_parsed [OF assms(1,2)])
  have h: "hours other bed wake = Some (D div 60)"
    by (rule hours_parsed [OF ms])
  have m: "minutes other bed wake = Some (D mod 60)"
    by (rule minutes_parsed [OF ms nonneg])
  have lt: "(D div 60 < 4) = (D < 240)"
    by presburger
  show ?thesis
    using parsed_time_nonempty [OF assms(1)] parsed_time_nonempty [OF assms(2)]
    by (simp add: sleep_effect_def h m lt midStageTime_parsed [OF assms(1)]
        finalStageTime_parsed [OF assms(1,2)])
qed

subsection \<open>Evaluation on concrete inputs\<close>

lemma digit_char_values:
  "digit_char 0 = CHR ''0''" "digit_char 1 = CHR ''1''" "digit_char 2 = CHR ''2''"
  "digit_char 3 = CHR ''3''" "digit_char 4 = CHR ''4''" "digit_char 5 = CHR ''5''"
  "digit_char 6 = CHR ''6''" "digit_char 7 = CHR ''7''" "digit_char 8 = CHR ''8''"
  "digit_char 9 = CHR ''9''"
  by (simp_all add: digit_char_def char_of_def bit_Suc_0_iff)

lemmas time_eval =
  parsed_time_def minutes_of_day_def is_digit_def digit_val_def digit_char_values
  two_digits_def hhmm_def

lemmas effect_eval =
  durationMinutes_def hours_def minutes_def durationMs_def wakeDate_def wakeIsNextDay_def
  bedDate_def new_Date_def floor_div_def round_div_def num_rem_def js_rem_def
  setDate_next_def midStageDate_def finalStageDate_def toTimeString5_def

subsection \<open>Roll-over and duration\<close>

text \<open>
  C5. For parsed times, the wake date is moved to the next day exactly when the wake
  time is not later than the bed time (equal times included), and the duration is then
  \<open>wake - bed + 1440\<close> minutes; otherwise the wake date stays and the duration is
  \<open>wake - bed\<close> minutes.
\<close>

theorem rollover_duration:
  assumes "parsed_time bed" and "parsed_time wake"
  shows "wakeIsNextDay other bed wake = (minutes_of_day wake \<le> minutes_of_day bed) \<and>
         durationMinutes other bed wake =
           Some (if minutes_of_day wake \<le> minutes_of_day bed
                 then minutes_of_day wake - minutes_of_day bed + 1440
                 else minutes_of_day wake - minutes_of_day bed)"
  using wakeIsNextDay_parsed [OF assms] durationMinutes_parsed [OF assms] by simp

theorem rollover_duration_witness:
  "parsed_time ''22:00'' \<and> parsed_time ''06:00'' \<and> parsed_time ''13:15'' \<and>
   wakeIsNextDay reject_other ''22:00'' ''06:00'' \<and>
   durationMinutes reject_other ''22:00'' ''06:00'' = Some 480 \<and>
   wakeIsNextDay reject_other ''06:00'' ''06:00'' \<and>
   durationMinutes reject_other ''06:00'' ''06:00'' = Some 1440 \<and>
   \<not> wakeIsNextDay reject_other ''06:00'' ''13:15'' \<and>
   durationMinutes reject_other ''06:00'' ''13:15'' = Some 435"
proof -
  have a: "parsed_time ''22:00''" and b: "parsed_time ''06:00''" and c: "parsed_time ''13:15''"
    by (simp_all add: time_eval)
  show ?thesis
    using a b c rollover_duration [OF a b, of reject_other]
      rollover_duration [OF b b, of reject_other] rollover_duration [OF b c, of reject_other]
    by (simp add: minutes_of_day_def digit_val_def)
qed

text \<open>
  C1 as stated does not hold: with equal bed and wake times the wake date is moved to
  the next day and the effect computes 24 hours 0 minutes, a duration of 1440 minutes.
\<close>

theorem duration_1440_counterexample:
  "parsed_time ''08:00'' \<and> durationMinutes reject_other ''08:00'' ''08:00'' = Some 1440 \<and>
   hours reject_other ''08:00'' ''08:00'' = Some 24 \<and>
   minutes reject_other ''08:00'' ''08:00'' = Some 0 \<and>
   sleepDurationError (sleep_effect reject_other ''08:00'' ''08:00'' initial_component) = None"
  by (simp add: time_eval effect_eval sleep_effect_def)

text \<open>
  C1, amended. For parsed times the duration is a number, greater than 0 and at most
  1440 minutes, and it is 1440 minutes exactly when the wake time equals the bed time.
\<close>

theorem duration_range:
  assumes "parsed_time bed" and "parsed_time wake"
  shows "\<exists>D. durationMinutes other bed wake = Some D \<and> 0 < D \<and> D \<le> 1440 \<and>
             (D = 1440) = (minutes_of_day wake = minutes_of_day bed)"
  using durationMinutes_parsed [OF assms, of other]
    minutes_of_day_range [OF assms(1)] minutes_of_day_range [OF assms(2)]
  by auto

theorem duration_range_witness:
  "parsed_time ''23:30'' \<and> parsed_time ''02:00'' \<and>
   (\<exists>D. durationMinutes reject_other ''23:30'' ''02:00'' = Some D \<and> 0 < D \<and> D \<le> 1440 \<and>
        (D = 1440) = (minutes_of_day ''02:00'' = minutes_of_day ''23:30''))"
proof -
  have a: "parsed_time ''23:30''" and b: "parsed_time ''02:00''"
    by (simp_all add: time_eval)
  show ?thesis
    using a b duration_range [OF a b, of reject_other] by simp
qed

subsection \<open>The four-hour minimum\<close>

lemma hhmm_nonempty: "hhmm n \<noteq> []"
  by (simp add: hhmm_def two_digits_def)

text \<open>
  C2. For parsed times with a duration of \<open>D\<close> minutes, the effect sets the error to
  exactly \<^verbatim>\<open>Sleep duration must be at least 4 hours.\<close> when \<open>D < 240\<close> and to \<open>null\<close>
  otherwise, and the displayed duration and the two stage times are the empty strings
  exactly when \<open>D < 240\<close>.
\<close>

theorem minimum_duration:
  assumes "parsed_time bed" and "parsed_time wake"
    and "durationMinutes other bed wake = Some D"
  shows "sleepDurationError (sleep_effect other bed wake st) =
           (if D < 240 then Some ''Sleep duration must be at least 4 hours.'' else None) \<and>
         (sleepInfo (sleep_effect other bed wake st) =
            \<lparr> duration = [], midStageTime = [], finalStageTime = [] \<rparr>) = (D < 240)"
  by (simp add: sleep_effect_parsed [OF assms] hhmm_nonempty)

theorem minimum_duration_witness:
  "parsed_time ''23:30'' \<and> parsed_time ''02:00'' \<and>
   durationMinutes reject_other ''23:30'' ''02:00'' = Some 150 \<and>
   sleepDurationError (sleep_effect reject_other ''23:30'' ''02:00'' initial_component) =
     Some ''Sleep duration must be at least 4 hours.'' \<and>
   sleepInfo (sleep_effect reject_other ''23:30'' ''02:00'' initial_component) =
     \<lparr> duration = [], midStageTime = [], finalStageTime = [] \<rparr>"
proof -
  have a: "parsed_time ''23:30''" and b: "parsed_time ''02:00''"
    by (simp_all add: time_eval)
  have d: "durationMinutes reject_other ''23:30'' ''02:00'' = Some 150"
    by (simp add: time_eval effect_eval)
  show ?thesis
    using a b d minimum_duration [OF a b d, of initial_component] by simp
qed

subsection \<open>Stage transition times\<close>

text \<open>
  C3. For parsed times with a duration of at least 240 minutes, the mid-stage time
  shown is the time of day \<open>(bed + 60) mod 1440\<close> and the final-stage time is
  \<open>(wake' - 120) mod 1440\<close>, where \<open>wake'\<close> is the wake time after the roll-over; read
  back as times they are parsed times with exactly these minutes of the day. For bed
  22:00 and wake 06:00 the duration is 480 minutes, the mid-stage time 23:00 and the
  final-stage time 04:00.
\<close>

theorem stage_times:
  "(parsed_time bed \<and> parsed_time wake \<and> durationMinutes other bed wake = Some D \<and> 240 \<le> D \<longrightarrow>
      midStageTime (sleepInfo (sleep_effect other bed wake st)) =
        hhmm (nat ((minutes_of_day bed + 60) mod 1440)) \<and>
      finalStageTime (sleepInfo (sleep_effect other bed wake st)) =
        hhmm (nat (((if minutes_of_day wake \<le> minutes_of_day bed
                     then minutes_of_day wake + 1440 else minutes_of_day wake) - 120) mod 1440)) \<and>
      parsed_time (midStageTime (sleepInfo (sleep_effect other bed wake st))) \<and>
      minutes_of_day (midStageTime (sleepInfo (sleep_effect other bed wake st))) =
        (minutes_of_day bed + 60) mod 1440 \<and>
      parsed_time (finalStageTime (sleepInfo (sleep_effect other bed wake st))) \<and>
      minutes_of_day (finalStageTime (sleepInfo (sleep_effect other bed wake st))) =
        ((if minutes_of_day wake \<le> minutes_of_day bed
          then minutes_of_day wake + 1440 else minutes_of_day wake) - 120) mod 1440) \<and>
   durationMinutes other ''22:00'' ''06:00'' = Some 480 \<and>
   midStageTime (sleepInfo (sleep_effect other ''22:00'' ''06:00'' st)) = ''23:00'' \<and>
   finalStageTime (sleepInfo (sleep_effect other ''22:00'' ''06:00'' st)) = ''04:00''"
proof -
  have general: "midStageTime (sleepInfo (sleep_effect other bed wake st)) = hhmm (nat m) \<and>
      finalStageTime (sleepInfo (sleep_effect other bed wake st)) = hhmm (nat f) \<and>
      parsed_time (hhmm (nat m)) \<and> minutes_of_day (hhmm (nat m)) = m \<and>
      parsed_time (hhmm (nat f)) \<and> minutes_of_day (hhmm (nat f)) = f"
    if p: "parsed_time bed" "parsed_time wake" and d: "durationMinutes other bed wake = Some D"
      and v: "240 \<le> D"
      and m: "m = (minutes_of_day bed + 60) mod 1440"
      and f: "f = ((if minutes_of_day wake \<le> minutes_of_day bed
                    then minutes_of_day wake + 1440 else minutes_of_day wake) - 120) mod 1440"
    for m f
  proof -
    have mr: "0 \<le> m" "m < 1440" and fr: "0 \<le> f" "f < 1440"
      unfolding m f by simp_all
    have "nat m < 1440" and "nat f < 1440"
      using mr fr by simp_all
    then show ?thesis
      using hhmm_parsed [of "nat m"] hhmm_parsed [of "nat f"] mr fr v
      by (simp add: sleep_effect_parsed [OF p d] m f)
  qed
  have scenario: "durationMinutes other ''22:00'' ''06:00'' = Some 480 \<and>
      midStageTime (sleepInfo (sleep_effect other ''22:00'' ''06:00'' st)) = ''23:00'' \<and>
      finalStageTime (sleepInfo (sleep_effect other ''22:00'' ''06:00'' st)) = ''04:00''"
    by (simp add: time_eval effect_eval sleep_effect_def)
  show ?thesis
    using general scenario by simp
qed

theorem stage_times_witness:
  "parsed_time ''23:45'' \<and> parsed_time ''07:30'' \<and>
   durationMinutes reject_other ''23:45'' ''07:30'' = Some 465 \<and> (240::int) \<le> 465 \<and>
   midStageTime (sleepInfo (sleep_effect reject_other ''23:45'' ''07:30'' initial_component)) = ''00:45'' \<and>
   finalStageTime (sleepInfo (sleep_effect reject_other ''23:45'' ''07:30'' initial_component)) = ''05:30'' \<and>
   minutes_of_day ''00:45'' = (minutes_of_day ''23:45'' + 60) mod 1440 \<and>
   minutes_of_day ''05:30'' = (minutes_of_day ''07:30'' + 1440 - 120) mod 1440"
proof -
  have a: "parsed_time ''23:45''" and b: "parsed_time ''07:30''"
    by (simp_all add: time_eval)
  have d: "durationMinutes reject_other ''23:45'' ''07:30'' = Some 465"
    by (simp add: time_eval effect_eval)
  have m: "minutes_of_day ''23:45'' = 1425" "minutes_of_day ''07:30'' = 450"
    "minutes_of_day ''00:45'' = 45" "minutes_of_day ''05:30'' = 330"
    by (simp_all add: time_eval)
  have h: "hhmm 45 = ''00:45''" "hhmm 330 = ''05:30''"
    by (simp_all add: time_eval)
  show ?thesis
    using a b d m h
      stage_times [of "''23:45''" "''07:30''" reject_other 465 initial_component]
    by simp
qed

text \<open>
  C8. For parsed times with a duration of at least 240 minutes, the instants follow
  one another strictly: bed date, mid-stage date, final-stage date, wake date; the
  final-stage date is \<open>D - 180\<close> minutes after the mid-stage date.
\<close>

theorem stages_do_not_invert:
  assumes "parsed_time bed" and "parsed_time wake"
    and "durationMinutes other bed wake = Some D" and "240 \<le> D"
  shows "num_lt (bedDate other bed) (midStageDate other bed) \<and>
         num_lt (midStageDate other bed) (finalStageDate other bed wake) \<and>
         num_lt (finalStageDate other bed wake) (wakeDate other bed wake) \<and>
         num_sub (finalStageDate other bed wake) (midStageDate other bed) =
           Some ((D - 180) * 60000)"
proof -
  have D: "D = (if minutes_of_day wake \<le> minutes_of_day bed
                then minutes_of_day wake - minutes_of_day bed + 1440
                else minutes_of_day wake - minutes_of_day bed)"
    using durationMinutes_parsed [OF assms(1,2), of other] assms(3) by simp
  have r: "0 \<le> minutes_of_day bed" "minutes_of_day wake < 1440"
    using minutes_of_day_range [OF assms(1)] minutes_of_day_range [OF assms(2)] by simp_all
  show ?thesis
  proof (cases "minutes_of_day wake \<le> minutes_of_day bed")
    case True
    then show ?thesis
      using assms(4) r unfolding D
      by (simp add: midStageDate_parsed [OF assms(1)] finalStageDate_parsed [OF assms(1,2)]
          wakeDate_parsed [OF assms(1,2)] bedDate_def new_Date_parsed [OF assms(1)])
  next
    case False
    then show ?thesis
      using assms(4) r unfolding D
      by (simp add: midStageDate_parsed [OF assms(1)] finalStageDate_parsed [OF assms(1,2)]
          wakeDate_parsed [OF assms(1,2)] bedDate_def new_Date_parsed [OF assms(1)])
  qed
qed

theorem stages_do_not_invert_witness:
  "parsed_time ''01:00'' \<and> parsed_time ''05:00'' \<and>
   durationMinutes reject_other ''01:00'' ''05:00'' = Some 240 \<and> (240::int) \<le> 240 \<and>
   midStageDate reject_other ''01:00'' = Some 7200000 \<and>
   finalStageDate reject_other ''01:00'' ''05:00'' = Some 10800000 \<and>
   num_lt (midStageDate reject_other ''01:00'') (finalStageDate reject_other ''01:00'' ''05:00'')"
proof -
  have a: "parsed_time ''01:00''" and b: "parsed_time ''05:00''"
    by (simp_all add: time_eval)
  have d: "durationMinutes reject_other ''01:00'' ''05:00'' = Some 240"
    by (simp add: time_eval effect_eval)
  have e: "midStageDate reject_other ''01:00'' = Some 7200000"
    "finalStageDate reject_other ''01:00'' ''05:00'' = Some 10800000"
    by (simp_all add: time_eval effect_eval)
  show ?thesis
    using a b d e stages_do_not_invert [OF a b d] by simp
qed

subsection \<open>The schema's time pattern\<close>

lemma digit_char_in_digits:
  assumes "k < 10"
  shows "digit_char k \<in> set ''0123456789''"
proof -
  have "k = 0 \<or> k = 1 \<or> k = 2 \<or> k = 3 \<or> k = 4 \<or> k = 5 \<or> k = 6 \<or> k = 7 \<or> k = 8 \<or> k = 9"
    using assms by arith
  then show ?thesis
    by (elim disjE) (simp_all only: digit_char_values, simp_all)
qed

lemma is_digit_iff: "is_digit c = (c \<in> set ''0123456789'')"
proof
  assume d: "is_digit c"
  define k where "k = (of_char c :: nat) - 48"
  have k: "k < 10" and n: "(of_char c :: nat) = 48 + k"
    using d unfolding is_digit_def k_def by arith+
  have "c = char_of (of_char c :: nat)"
    by simp
  then have "c = digit_char k"
    unfolding n digit_char_def .
  then show "c \<in> set ''0123456789''"
    using digit_char_in_digits [OF k] by simp
next
  assume "c \<in> set ''0123456789''"
  then show "is_digit c"
    by (auto simp: is_digit_def)
qed

lemma time_regex_iff:
  "time_regex s =
     (length s = 5 \<and> is_digit (s ! 0) \<and> is_digit (s ! 1) \<and> s ! 2 = CHR '':'' \<and>
      is_digit (s ! 3) \<and> is_digit (s ! 4))"
  by (cases s rule: time_regex.cases) simp_all

text \<open>
  C4 as stated does not hold: the schema accepts \<^verbatim>\<open>25:00\<close> and \<^verbatim>\<open>12:61\<close>, whose hour
  and minute are off the clock.
\<close>

theorem schema_range_counterexample:
  "schema_time ''25:00'' = Inr ''25:00'' \<and> hour_of ''25:00'' = 25 \<and>
   schema_time ''12:61'' = Inr ''12:61'' \<and> minute_of ''12:61'' = 61 \<and>
   \<not> parsed_time ''25:00'' \<and> \<not> parsed_time ''12:61''"
  by (simp add: schema_time_def time_eval)

text \<open>
  C4, amended. The schema accepts a time string exactly when it has five characters,
  two decimal digits, a colon and two decimal digits, and it rejects every other string
  with the message \<^verbatim>\<open>Must be in HH:MM format\<close>. The values of the hour and of the
  minute are not checked: every string of the pattern is accepted, those with an hour
  up to 23 and a minute up to 59 among them.
\<close>

theorem schema_time_pattern:
  "schema_time s =
     (if length s = 5 \<and> s ! 0 \<in> set ''0123456789'' \<and> s ! 1 \<in> set ''0123456789'' \<and>
         s ! 2 = CHR '':'' \<and> s ! 3 \<in> set ''0123456789'' \<and> s ! 4 \<in> set ''0123456789''
      then Inr s else Inl ''Must be in HH:MM format'') \<and>
   (schema_time s = Inr s) = time_regex s \<and>
   (parsed_time s = (schema_time s = Inr s \<and> hour_of s \<le> 23 \<and> minute_of s \<le> 59))"
proof -
  have tr: "time_regex s =
     (length s = 5 \<and> s ! 0 \<in> set ''0123456789'' \<and> s ! 1 \<in> set ''0123456789'' \<and>
      s ! 2 = CHR '':'' \<and> s ! 3 \<in> set ''0123456789'' \<and> s ! 4 \<in> set ''0123456789'')"
    unfolding time_regex_iff is_digit_iff ..
  show ?thesis
    unfolding schema_time_def parsed_time_def tr [symmetric] by simp
qed

section \<open>Properties of the sleep-level codec\<close>

subsection \<open>The rounding of doubles\<close>

lemma round_half_even_err: "\<bar>of_int (round_half_even x) - x\<bar> \<le> 1 / 2"
  unfolding round_half_even_def Let_def by (auto simp: abs_if) linarith+

lemma round_half_even_int [simp]: "round_half_even (of_int k) = k"
  by (simp add: round_half_even_def)

lemma ilog2_bounds_ge1:
  assumes "1 \<le> (x::rat)"
  shows "2 powi (ilog2 x) \<le> x \<and> x < 2 powi (ilog2 x + 1)"
proof -
  define n where "n = nat \<lfloor>x\<rfloor>"
  define k where "k = floorlog 2 n"
  have n_pos: "0 < n"
    using assms by (simp add: n_def)
  have b: "2 ^ (k - 1) \<le> n \<and> n < 2 ^ k"
    unfolding k_def by (rule floorlog_bounds) (use n_pos in simp_all)
  have k_pos: "0 < k"
    using n_pos by (simp add: k_def floorlog_def)
  have e: "ilog2 x = int (k - 1)"
    using assms k_pos by (simp add: ilog2_def n_def k_def)
  have fl: "rat_of_nat n = of_int \<lfloor>x\<rfloor>"
    using assms by (simp add: n_def)
  have "(2::rat) ^ (k - 1) \<le> of_nat n"
    using b by (metis of_nat_le_iff of_nat_numeral of_nat_power)
  also have "\<dots> \<le> x"
    unfolding fl by (rule of_int_floor_le)
  finally have lo: "2 powi (ilog2 x) \<le> x"
    by (simp add: e)
  have "Suc n \<le> 2 ^ k"
    using b by simp
  then have "rat_of_nat (Suc n) \<le> 2 ^ k"
    by (metis of_nat_le_iff of_nat_numeral of_nat_power)
  moreover have "x < of_int \<lfloor>x\<rfloor> + 1"
    by linarith
  then have "x < of_nat (Suc n)"
    using fl by simp
  ultimately have "x < 2 ^ k"
    by simp
  moreover have "ilog2 x + 1 = int k"
    using e k_pos by simp
  ultimately have hi: "x < 2 powi (ilog2 x + 1)"
    by simp
  from lo hi show ?thesis ..
qed

lemma ilog2_bounds_lt1:
  assumes "0 < (x::rat)" "x < 1"
  shows "2 powi (ilog2 x) \<le> x \<and> x < 2 powi (ilog2 x + 1)"
proof -
  define y where "y = 1 / x"
  define n where "n = nat (\<lceil>y\<rceil> - 1)"
  define k where "k = floorlog 2 n"
  have y_gt: "1 < y"
    using assms by (simp add: y_def)
  then have c2: "2 \<le> \<lceil>y\<rceil>"
    by (simp add: le_ceiling_iff)
  have n_pos: "0 < n"
    using c2 by (simp add: n_def)
  have n_eq: "rat_of_nat n = of_int \<lceil>y\<rceil> - 1"
    using c2 by (simp add: n_def)
  have b: "2 ^ (k - 1) \<le> n \<and> n < 2 ^ k"
    unfolding k_def by (rule floorlog_bounds) (use n_pos in simp_all)
  have k_pos: "0 < k"
    using n_pos by (simp add: k_def floorlog_def)
  have e: "ilog2 x = - int k"
    using assms by (simp add: ilog2_def n_def k_def y_def)
  have x_eq: "x = 1 / y"
    by (simp add: y_def)
  have "Suc n \<le> 2 ^ k"
    using b by simp
  then have "rat_of_nat (Suc n) \<le> 2 ^ k"
    by (metis of_nat_le_iff of_nat_numeral of_nat_power)
  moreover have "y \<le> of_nat (Suc n)"
    using n_eq by simp
  ultimately have "y \<le> 2 ^ k"
    by simp
  then have "1 / 2 ^ k \<le> 1 / y"
    using y_gt by (simp add: frac_le)
  moreover have "(2::rat) powi (ilog2 x) = 1 / 2 ^ k"
    by (simp add: e power_int_minus_divide)
  ultimately have lo: "2 powi (ilog2 x) \<le> x"
    unfolding y_def by simp
  have "(2::rat) ^ (k - 1) \<le> of_nat n"
    using b by (metis of_nat_le_iff of_nat_numeral of_nat_power)
  also have "\<dots> < y"
    unfolding n_eq using ceiling_correct [of y] by simp
  finally have "1 / y < 1 / 2 ^ (k - 1)"
    by (simp add: frac_less2)
  moreover have "ilog2 x + 1 = - int (k - 1)"
    using e k_pos by simp
  then have "(2::rat) powi (ilog2 x + 1) = 1 / 2 ^ (k - 1)"
    by (simp add: power_int_minus_divide)
  ultimately have hi: "x < 2 powi (ilog2 x + 1)"
    unfolding y_def by simp
  from lo hi show ?thesis ..
qed

lemma ilog2_bounds:
  assumes "0 < (x::rat)"
  shows "2 powi (ilog2 x) \<le> x \<and> x < 2 powi (ilog2 x + 1)"
  using assms ilog2_bounds_ge1 [of x] ilog2_bounds_lt1 [of x] by (cases "1 \<le> x") simp_all

lemma fl64_error: "\<bar>fl64 x - x\<bar> \<le> \<bar>x\<bar> / 2 ^ 53"
proof (cases "x = 0")
  case True
  then show ?thesis by (simp add: fl64_def)
next
  case False
  define e where "e = ilog2 \<bar>x\<bar>"
  define u :: rat where "u = 2 powi (e - 52)"
  have u_pos: "0 < u"
    by (simp add: u_def)
  have lo: "2 powi e \<le> \<bar>x\<bar>"
    unfolding e_def using ilog2_bounds [of "\<bar>x\<bar>"] False by simp
  have fl: "fl64 x = of_int (round_half_even (x / u)) * u"
    using False by (simp add: fl64_def u_def e_def Let_def)
  have "fl64 x - x = (of_int (round_half_even (x / u)) - x / u) * u"
    using u_pos by (simp add: fl left_diff_distrib)
  then have "\<bar>fl64 x - x\<bar> = \<bar>of_int (round_half_even (x / u)) - x / u\<bar> * u"
    using u_pos by (simp add: abs_mult)
  also have "\<dots> \<le> (1 / 2) * u"
    using u_pos round_half_even_err [of "x / u"] by (intro mult_right_mono) simp_all
  also have "(1 / 2) * u = 2 powi e / 2 ^ 53"
    by (simp add: u_def power_int_diff)
  also have "\<dots> \<le> \<bar>x\<bar> / 2 ^ 53"
    using lo by (simp add: divide_right_mono)
  finally show ?thesis .
qed

lemma fl64_exact:
  assumes "x / 2 powi (ilog2 \<bar>x\<bar> - 52) = of_int k"
  shows "fl64 x = x"
proof (cases "x = 0")
  case True
  then show ?thesis by (simp add: fl64_def)
next
  case False
  define u :: rat where "u = 2 powi (ilog2 \<bar>x\<bar> - 52)"
  have u: "u \<noteq> 0"
    by (simp add: u_def)
  have "rat_of_int (round_half_even (x / u)) = x / u"
    using assms by (simp add: u_def)
  then have "rat_of_int (round_half_even (x / u)) * u = x"
    using u by simp
  then show ?thesis
    using False by (simp add: fl64_def Let_def u_def)
qed

lemma fl64_int:
  assumes "\<bar>n\<bar> < 2 ^ 53"
  shows "fl64 (of_int n) = of_int n"
proof (cases "n = 0")
  case True
  then show ?thesis by (simp add: fl64_def)
next
  case False
  define e where "e = ilog2 \<bar>rat_of_int n\<bar>"
  have pos: "0 < \<bar>rat_of_int n\<bar>"
    using False by simp
  have "2 powi e \<le> \<bar>rat_of_int n\<bar>"
    unfolding e_def using ilog2_bounds [OF pos] by simp
  also have "\<dots> < 2 ^ 53"
    using assms by (metis of_int_abs of_int_less_iff of_int_numeral of_int_power)
  finally have "(2::rat) powi e < 2 powi 53"
    by simp
  then have "e < 53"
    by (rule power_int_le_imp_less_exp [rotated]) simp_all
  then have "0 \<le> 52 - e"
    by simp
  then have "(2::rat) powi (52 - e) = of_int (2 ^ nat (52 - e))"
    by (simp add: power_int_def)
  moreover have "rat_of_int n / 2 powi (e - 52) = of_int n * 2 powi (52 - e)"
    by (simp add: power_int_diff)
  ultimately have "rat_of_int n / 2 powi (e - 52) = of_int (n * 2 ^ nat (52 - e))"
    by simp
  then show ?thesis
    unfolding e_def by (rule fl64_exact)
qed

lemma ilog2_unique:
  assumes "0 < (x::rat)" "2 powi e \<le> x" "x < 2 powi (e + 1)"
  shows "ilog2 x = e"
proof -
  define i where "i = ilog2 x"
  have b: "2 powi i \<le> x" "x < 2 powi (i + 1)"
    unfolding i_def using ilog2_bounds [OF assms(1)] by simp_all
  have "\<not> e + 1 \<le> i"
  proof
    assume "e + 1 \<le> i"
    then have "(2::rat) powi (e + 1) \<le> 2 powi i"
      by (rule power_int_increasing) simp
    with b(1) assms(3) show False by simp
  qed
  moreover have "\<not> i + 1 \<le> e"
  proof
    assume "i + 1 \<le> e"
    then have "(2::rat) powi (i + 1) \<le> 2 powi e"
      by (rule power_int_increasing) simp
    with b(2) assms(2) show False by simp
  qed
  ultimately show ?thesis
    unfolding i_def by simp
qed

lemma encode_of_int:
  assumes "\<bar>l\<bar> \<le> 10"
  shows "encode (of_int l) = 10 * l"
proof -
  have "\<bar>l * 10\<bar> < 2 ^ 53"
    using assms by simp
  then have "fl64 (of_int (l * 10)) = of_int (l * 10)"
    by (rule fl64_int)
  then have "js_round (fl64 (of_int l * 10)) = \<lfloor>rat_of_int (l * 10) + 1 / 2\<rfloor>"
    by (simp add: js_round_def)
  also have "\<dots> = l * 10"
    by (rule floor_unique) simp_all
  finally show ?thesis
    by (simp add: encode_def)
qed

lemma decode_tens:
  assumes "\<bar>l\<bar> \<le> 10"
  shows "decode (10 * l) = of_int l"
proof -
  have "\<bar>l\<bar> < 2 ^ 53"
    using assms by simp
  then have "fl64 (of_int l) = of_int l"
    by (rule fl64_int)
  then show ?thesis
    by (simp add: decode_def)
qed

lemma encode_decode:
  assumes "\<bar>s\<bar> \<le> 100"
  shows "encode (decode s) = s"
proof -
  define a :: rat where "a = of_int s / 10"
  define y where "y = fl64 a * 10"
  define z where "z = fl64 y"
  have s100: "\<bar>rat_of_int s\<bar> \<le> 100"
    using assms by (metis of_int_abs of_int_le_iff of_int_numeral)
  then have a10: "\<bar>a\<bar> \<le> 10"
    by (simp add: a_def)
  have "\<bar>fl64 a - a\<bar> \<le> \<bar>a\<bar> / 2 ^ 53"
    by (rule fl64_error)
  also have "\<dots> \<le> 10 / 2 ^ 53"
    using a10 by (simp add: divide_right_mono)
  finally have da: "\<bar>fl64 a - a\<bar> \<le> 10 / 2 ^ 53" .
  have "y - of_int s = (fl64 a - a) * 10"
    by (simp add: y_def a_def algebra_simps)
  then have "\<bar>y - of_int s\<bar> = \<bar>fl64 a - a\<bar> * \<bar>10\<bar>"
    by (simp only: abs_mult)
  with da have "\<bar>y - of_int s\<bar> \<le> 100 / 2 ^ 53"
    by simp
  also have "\<dots> \<le> 1 / 8"
    by simp
  finally have ys: "\<bar>y - of_int s\<bar> \<le> 1 / 8" .
  have y101: "\<bar>y\<bar> \<le> 101"
    using ys s100 by linarith
  have "\<bar>z - y\<bar> \<le> \<bar>y\<bar> / 2 ^ 53"
    unfolding z_def by (rule fl64_error)
  also have "\<dots> \<le> 101 / 2 ^ 53"
    using y101 by (simp add: divide_right_mono)
  also have "\<dots> \<le> 1 / 8"
    by simp
  finally have zy: "\<bar>z - y\<bar> \<le> 1 / 8" .
  have zs: "\<bar>z - of_int s\<bar> < 1 / 2"
    using zy ys by linarith
  have "\<lfloor>z + 1 / 2\<rfloor> = s"
  proof (rule floor_unique)
    show "of_int s \<le> z + 1 / 2"
      using zs by linarith
    show "z + 1 / 2 < of_int s + 1"
      using zs by linarith
  qed
  then show ?thesis
    by (simp add: encode_def decode_def js_round_def z_def y_def a_def)
qed

lemma decode_55: "decode 55 = 11 / 2"
proof -
  have e: "ilog2 \<bar>11 / 2 :: rat\<bar> = 2"
    by (rule ilog2_unique) simp_all
  have "(11 / 2 :: rat) / 2 powi (ilog2 \<bar>11 / 2\<bar> - 52) = of_int (11 * 2 ^ 49)"
    unfolding e by (simp add: power_int_minus_divide)
  then have "fl64 (11 / 2) = 11 / 2"
    by (rule fl64_exact)
  then show ?thesis
    by (simp add: decode_def)
qed

subsection \<open>Round trips\<close>

text \<open>
  C6. Decoding the encoding of an integer sleep level between -10 and 10 gives the
  level back, and encoding the decoding of a stored value that is a multiple of 10
  between -100 and 100 gives the stored value back; \<open>encode (-10) = -100\<close>,
  \<open>decode (-100) = -10\<close> and \<open>encode 0 = 0\<close>.
\<close>

theorem codec_roundtrip:
  "(- 10 \<le> l \<and> l \<le> 10 \<longrightarrow> decode (encode (of_int l)) = of_int l) \<and>
   (- 100 \<le> s \<and> s \<le> 100 \<and> 10 dvd s \<longrightarrow> encode (decode s) = s) \<and>
   encode (- 10) = - 100 \<and> decode (- 100) = - 10 \<and> encode 0 = 0"
proof -
  have a: "decode (encode (of_int l)) = of_int l" if "- 10 \<le> l" "l \<le> 10"
  proof -
    have "\<bar>l\<bar> \<le> 10"
      using that by simp
    then show ?thesis
      using encode_of_int [of l] decode_tens [of l] by simp
  qed
  have b: "encode (decode s) = s" if lo: "- 100 \<le> s" and hi: "s \<le> 100" and ten: "10 dvd s"
  proof -
    obtain k where k: "s = 10 * k"
      using ten by (elim dvdE)
    have "\<bar>k\<bar> \<le> 10"
      using lo hi unfolding k by simp
    then show ?thesis
      using encode_of_int [of k] decode_tens [of k] unfolding k by simp
  qed
  have c: "encode (- 10) = - 100"
    using encode_of_int [of "- 10"] by simp
  have d: "decode (- 100) = - 10"
    using decode_tens [of "- 10"] by simp
  have e: "encode 0 = 0"
    using encode_of_int [of 0] by simp
  from a b c d e show ?thesis
    by simp
qed

theorem codec_roundtrip_witness:
  "(- 10 \<le> (7::int) \<and> (7::int) \<le> 10 \<and> decode (encode (of_int 7)) = of_int 7) \<and>
   (- 100 \<le> (- 30::int) \<and> (- 30::int) \<le> 100 \<and> 10 dvd (- 30::int) \<and>
    encode (decode (- 30)) = - 30)"
  using codec_roundtrip [of 7 "- 30"] by simp

text \<open>
  C10. Encoding the decoding of any stored integer between -100 and 100 gives the
  stored value back, also when it is not a multiple of 10: decoding neither rejects nor
  clamps such a value but yields the double nearest to a tenth of it, a fractional level
  (\<open>decode 55 = 5.5\<close> for one), and multiplying by ten and rounding to the nearest
  integer restores the stored integer.
\<close>

theorem stored_roundtrip:
  "(- 100 \<le> s \<and> s \<le> 100 \<longrightarrow>
      encode (decode s) = s \<and>
      \<bar>decode s - of_int s / 10\<bar> \<le> \<bar>of_int s / 10\<bar> / 2 ^ 53) \<and>
   decode 55 = 11 / 2 \<and> encode (11 / 2) = 55"
proof -
  have a: "encode (decode s) = s \<and>
      \<bar>decode s - of_int s / 10\<bar> \<le> \<bar>of_int s / 10\<bar> / 2 ^ 53"
    if "- 100 \<le> s" "s \<le> 100"
  proof -
    have "\<bar>s\<bar> \<le> 100"
      using that by simp
    then have "encode (decode s) = s"
      by (rule encode_decode)
    moreover have "\<bar>decode s - of_int s / 10\<bar> \<le> \<bar>of_int s / 10\<bar> / 2 ^ 53"
      unfolding decode_def by (rule fl64_error)
    ultimately show ?thesis ..
  qed
  have "encode (decode 55) = 55"
    by (rule encode_decode) simp
  then have "encode (11 / 2) = 55"
    by (simp only: decode_55)
  with a decode_55 show ?thesis
    by simp
qed

theorem stored_roundtrip_witness:
  "- 100 \<le> (1::int) \<and> (1::int) \<le> 100 \<and> encode (decode 1) = 1 \<and>
   - 100 \<le> (- 77::int) \<and> (- 77::int) \<le> 100 \<and> encode (decode (- 77)) = - 77"
  using stored_roundtrip [of 1] stored_roundtrip [of "- 77"] by simp

section \<open>Properties of submitting and deleting\<close>

lemma onSubmit_sends:
  "\<not> truthy (sleepDurationError st) \<Longrightarrow> length (onSubmit st data) = 1"
  by (simp add: onSubmit_def)

text \<open>
  C7. While the sleep-duration error is set, the submit handler returns without any
  call to the remote store, whatever the form holds, and the submit button is disabled.
  In particular this is the state after the effect has run on parsed times whose
  duration is below 240 minutes.
\<close>

theorem no_write_while_invalid:
  "(truthy (sleepDurationError st) \<longrightarrow>
      onSubmit st data = [] \<and> handleSubmit st = [] \<and> submit_disabled isPending st) \<and>
   (parsed_time bed \<and> parsed_time wake \<and> durationMinutes other bed wake = Some D \<and> D < 240 \<longrightarrow>
      truthy (sleepDurationError (sleep_effect other bed wake st)) \<and>
      onSubmit (sleep_effect other bed wake st) data = [] \<and>
      handleSubmit (sleep_effect other bed wake st) = [] \<and>
      submit_disabled isPending (sleep_effect other bed wake st))"
proof -
  have guard: "onSubmit s data = [] \<and> handleSubmit s = [] \<and> submit_disabled isPending s"
    if "truthy (sleepDurationError s)" for s
    using that by (simp add: onSubmit_def handleSubmit_def submit_disabled_def)
  have "truthy (sleepDurationError (sleep_effect other bed wake st))"
    if p: "parsed_time bed" "parsed_time wake" and d: "durationMinutes other bed wake = Some D"
      and short: "D < 240"
    using short by (simp add: sleep_effect_parsed [OF p d] truthy_def)
  then show ?thesis
    using guard [of st] guard [of "sleep_effect other bed wake st"] by blast
qed

theorem no_write_while_invalid_witness:
  "parsed_time ''23:30'' \<and> parsed_time ''02:00'' \<and>
   durationMinutes reject_other ''23:30'' ''02:00'' = Some 150 \<and> (150::int) < 240 \<and>
   truthy (sleepDurationError (sleep_effect reject_other ''23:30'' ''02:00'' initial_component)) \<and>
   onSubmit (sleep_effect reject_other ''23:30'' ''02:00'' initial_component) defaultValues = [] \<and>
   onSubmit (sleep_effect reject_other ''23:30'' ''02:00''
              (sleep_effect reject_other ''23:30'' ''02:00'' initial_component)) defaultValues = []"
proof -
  have a: "parsed_time ''23:30''" and b: "parsed_time ''02:00''"
    by (simp_all add: time_eval)
  have d: "durationMinutes reject_other ''23:30'' ''02:00'' = Some 150"
    by (simp add: time_eval effect_eval)
  have t: "truthy (sleepDurationError (sleep_effect reject_other ''23:30'' ''02:00'' initial_component))"
    using no_write_while_invalid
      [of initial_component defaultValues False "''23:30''" "''02:00''" reject_other 150] a b d
    by simp
  show ?thesis
    using a b d t
      no_write_while_invalid
        [of "sleep_effect reject_other ''23:30'' ''02:00'' initial_component" defaultValues False
          "''23:30''" "''02:00''" reject_other 150]
    by simp
qed

text \<open>
  C9. When a delete has succeeded the form holds the default values, bed time 22:00,
  wake-up time 06:00, the three sleep levels 0 and the timezone America/New_York,
  whatever it held before, and the profile no longer counts as existing. The delete
  request carries no payload, and the levels after the reset are the default 0 whatever
  levels the form held, so that no level is scaled on this path.
  The effect then finds the default times valid: 8 hours, stages at 23:00 and 04:00.
\<close>

theorem delete_resets_defaults:
  "form (delete_onSuccess st) =
     \<lparr> bedTime = ''22:00'', wakeupTime = ''06:00'',
       initialSleepLevel = 0, midStageSleepLevel = 0, finalSleepLevel = 0,
       timezone = \<lparr> tz_value = ''America/New_York'', altName = None, abbrev = None \<rparr> \<rparr> \<and>
   \<not> isExistingProfile (delete_onSuccess st) \<and>
   onDelete True = [DeleteProfile] \<and>
   sleepDurationError
     (sleep_effect other (bedTime (form (delete_onSuccess st)))
        (wakeupTime (form (delete_onSuccess st))) (delete_onSuccess st)) = None \<and>
   sleepInfo
     (sleep_effect other (bedTime (form (delete_onSuccess st)))
        (wakeupTime (form (delete_onSuccess st))) (delete_onSuccess st)) =
     \<lparr> duration = ''8 hours 0 minutes'', midStageTime = ''23:00'', finalStageTime = ''04:00'' \<rparr>"
  by (simp add: delete_onSuccess_def defaultValues_def onDelete_def sleep_effect_def
      time_eval effect_eval number_toString_def digits10.simps)

end
